theory Spec2Isabelle
  imports Main "HOL-Library.Word" "HOL-Library.Sublist" "HOL-Library.List_Lexorder"
    "HOL-Library.Char_ord"
begin

section \<open>Values, exceptions and the variables map\<close>

text \<open>
  \<^verbatim>\<open>std::size_t\<close> on the 64-bit hosts the driver is built for.
\<close>

type_synonym size_t = "64 word"

text \<open>
  What a \<^verbatim>\<open>boost::any\<close> of a \<^verbatim>\<open>variable_value\<close> holds in this program: the
  value types of the declared options (\<^verbatim>\<open>bool\<close>, \<^verbatim>\<open>std::size_t\<close>, \<^verbatim>\<open>std::string\<close>,
  \<^verbatim>\<open>std::vector<std::string>\<close>); a tool may store values of further types, which are
  kept uninterpreted as their text.
\<close>

datatype any =
    any_bool bool
  | any_size size_t
  | any_string string
  | any_strings "string list"
  | any_other string

text \<open>
  The exception classes of \<^verbatim>\<open>boost::program_options\<close> that the two parsers can throw,
  each with the token or option name it reports.
\<close>

datatype syntax_kind = empty_adjacent_parameter | missing_parameter | extra_parameter

datatype po_error =
    unknown_option string
  | ambiguous_option string
  | invalid_command_line_syntax syntax_kind string
  | too_many_positional_options_error
  | multiple_occurrences
  | multiple_values
  | at_least_one_value_required
  | invalid_option_value string
  | invalid_bool_value string
  | required_option string

text \<open>
  Everything that is thrown in \<^verbatim>\<open>multi_tool.cpp\<close>: the two \<^verbatim>\<open>std::runtime_error\<close>s of
  \<^verbatim>\<open>parseToolName\<close>, the \<^verbatim>\<open>std::logic_error\<close> of \<^verbatim>\<open>parseOptions\<close>, what
  \<^verbatim>\<open>variables_map::at\<close> and \<^verbatim>\<open>variable_value::as\<close> throw, and the library's errors.
\<close>

datatype exn =
    runtime_error string
  | logic_error string
  | out_of_range string
  | bad_any_cast
  | program_options_error po_error

text \<open>Sequencing of a computation that may throw.\<close>

definition andThen :: "'e + 'a \<Rightarrow> ('a \<Rightarrow> 'e + 'b) \<Rightarrow> 'e + 'b" where
  "andThen r f = (case r of Inl e \<Rightarrow> Inl e | Inr x \<Rightarrow> f x)"

lemma andThen_cong [fundef_cong]:
  "r = r' \<Longrightarrow> (\<And>x. r' = Inr x \<Longrightarrow> f x = f' x) \<Longrightarrow> andThen r f = andThen r' f'"
  by (cases r') (simp_all add: andThen_def)

type_synonym variables_map = "string \<rightharpoonup> any"

definition count :: "variables_map \<Rightarrow> string \<Rightarrow> nat" where
  "count args k = (case args k of None \<Rightarrow> 0 | Some _ \<Rightarrow> 1)"

definition at :: "variables_map \<Rightarrow> string \<Rightarrow> exn + any" where
  "at args k = (case args k of None \<Rightarrow> Inl (out_of_range k) | Some v \<Rightarrow> Inr v)"

definition as_string :: "any \<Rightarrow> exn + string" where
  "as_string v = (case v of any_string s \<Rightarrow> Inr s | _ \<Rightarrow> Inl bad_any_cast)"

definition as_bool :: "any \<Rightarrow> exn + bool" where
  "as_bool v = (case v of any_bool b \<Rightarrow> Inr b | _ \<Rightarrow> Inl bad_any_cast)"

definition as_size_t :: "any \<Rightarrow> exn + size_t" where
  "as_size_t v = (case v of any_size n \<Rightarrow> Inr n | _ \<Rightarrow> Inl bad_any_cast)"

section \<open>The runtime configuration\<close>

text \<open>
  Modelled from the spec: the declaration of \<^verbatim>\<open>ipu_utils::RuntimeConfig\<close> (in
  \<^verbatim>\<open>ipu_utils.hpp\<close>, which is not among the sources). The fields are the spec's, in the
  order in which \<^verbatim>\<open>getRuntimeConfig\<close> initialises the aggregate.
\<close>

record RuntimeConfig =
  deviceCount :: size_t
  imagePath :: string
  useSimulator :: bool
  persist :: bool
  restore :: bool
  compileOnly :: bool
  deferAttach :: bool

text \<open>
  \<^verbatim>\<open>getRuntimeConfig\<close> (lines 121 to 134). The initialisers of the braced list are
  evaluated from left to right, and \<^verbatim>\<open>||\<close> reads \<^verbatim>\<open>defer-attach\<close> only when
  \<^verbatim>\<open>compile-only\<close> is false.
\<close>

definition getRuntimeConfig :: "variables_map \<Rightarrow> exn + RuntimeConfig" where
  "getRuntimeConfig args =
     andThen (andThen (at args ''save-exe'') as_string) (\<lambda>saveName.
     andThen (if saveName = [] then andThen (at args ''load-exe'') as_string
              else Inr saveName) (\<lambda>exeName.
     andThen (andThen (at args ''ipus'') as_size_t) (\<lambda>ipus.
     andThen (andThen (at args ''model'') as_bool) (\<lambda>model.
     andThen (andThen (at args ''save-exe'') as_string) (\<lambda>saveExe.
     andThen (andThen (at args ''load-exe'') as_string) (\<lambda>loadExe.
     andThen (andThen (at args ''compile-only'') as_bool) (\<lambda>compileOnlyArg.
     andThen (if compileOnlyArg then Inr True
              else andThen (at args ''defer-attach'') as_bool) (\<lambda>deferred.
     Inr \<lparr>deviceCount = ipus, imagePath = exeName, useSimulator = model,
          persist = (saveExe \<noteq> []), restore = (loadExe \<noteq> []),
          compileOnly = compileOnlyArg, deferAttach = deferred\<rparr>))))))))"

text \<open>
  The end of \<^verbatim>\<open>parseOptions\<close> (lines 112 to 118): the check that \<^verbatim>\<open>save-exe\<close> and
  \<^verbatim>\<open>load-exe\<close> are not both set, after which the map is returned.
\<close>

definition checkExeModes :: "variables_map \<Rightarrow> exn + variables_map" where
  "checkExeModes args =
     andThen (andThen (at args ''save-exe'') as_string) (\<lambda>s.
     andThen (andThen (at args ''load-exe'') as_string) (\<lambda>l.
       let saveExe = (s \<noteq> []); loadExe = (l \<noteq> []) in
       if saveExe \<and> loadExe
       then Inl (logic_error ''You can not set both save-exe and load-exe.'')
       else Inr args))"

text \<open>
  The spec's \<^verbatim>\<open>MutuallyExclusiveModesError\<close> is that \<^verbatim>\<open>std::logic_error\<close>.
\<close>

definition MutuallyExclusiveModesError :: exn where
  "MutuallyExclusiveModesError = logic_error ''You can not set both save-exe and load-exe.''"

text \<open>
  Config resolution, as \<^verbatim>\<open>main\<close> runs it on a stored map (lines 147 and 148): the
  mode check that ends \<^verbatim>\<open>parseOptions\<close>, then \<^verbatim>\<open>getRuntimeConfig\<close> on the map it
  returned.
\<close>

definition resolve :: "variables_map \<Rightarrow> exn + RuntimeConfig" where
  "resolve args = andThen (checkExeModes args) getRuntimeConfig"

text \<open>
  A well-typed set of parsed general options: each of the six options that
  \<^verbatim>\<open>getRuntimeConfig\<close> reads is present with the value type it was declared with.
\<close>

definition well_typed :: "variables_map \<Rightarrow> bool" where
  "well_typed args =
     ((case args ''model'' of Some (any_bool _) \<Rightarrow> True | _ \<Rightarrow> False) \<and>
      (case args ''ipus'' of Some (any_size _) \<Rightarrow> True | _ \<Rightarrow> False) \<and>
      (case args ''save-exe'' of Some (any_string _) \<Rightarrow> True | _ \<Rightarrow> False) \<and>
      (case args ''load-exe'' of Some (any_string _) \<Rightarrow> True | _ \<Rightarrow> False) \<and>
      (case args ''compile-only'' of Some (any_bool _) \<Rightarrow> True | _ \<Rightarrow> False) \<and>
      (case args ''defer-attach'' of Some (any_bool _) \<Rightarrow> True | _ \<Rightarrow> False))"


section \<open>The option parser of the library\<close>

text \<open>
  Both parsers of \<^verbatim>\<open>multi_tool.cpp\<close> are calls of \<^verbatim>\<open>boost::program_options\<close>:
  \<^verbatim>\<open>command_line_parser(argc, argv).options(desc)...run()\<close>, \<^verbatim>\<open>store\<close> and \<^verbatim>\<open>notify\<close>.
  This section is a model of that library as the program uses it: the default
  \<^verbatim>\<open>unix_style\<close> (long options with adjacent or following value, short options with a
  dash, sticky short options, guessing of abbreviated long names, the \<^verbatim>\<open>--\<close> terminator),
  case-sensitive names, no additional or user-supplied style parser. An option is
  declared with one long name and at most one short name.
\<close>

subsection \<open>Value semantics and validators\<close>

text \<open>
  The interface \<^verbatim>\<open>value_semantic\<close>: how many tokens an option takes, whether it is
  required, how its tokens are parsed into the value store (\<^verbatim>\<open>None\<close> is the empty
  \<^verbatim>\<open>boost::any\<close>), and its default value if it has one.
\<close>

record value_semantic =
  min_tokens :: nat
  max_tokens :: nat
  is_required :: bool
  parse :: "any option \<Rightarrow> string list \<Rightarrow> po_error + any"
  apply_default :: "any option"

record option_description =
  long_name :: string
  short_name :: string
  semantic :: value_semantic

definition check_first_occurrence :: "any option \<Rightarrow> po_error + unit" where
  "check_first_occurrence v = (if v \<noteq> None then Inl multiple_occurrences else Inr ())"

definition get_single_string :: "string list \<Rightarrow> bool \<Rightarrow> po_error + string" where
  "get_single_string v allow_empty =
     (if length v > 1 then Inl multiple_values
      else if length v = 1 then Inr (hd v)
      else if \<not> allow_empty then Inl at_least_one_value_required
      else Inr [])"

definition to_lower :: "char \<Rightarrow> char" where
  "to_lower c =
     (if CHR ''A'' \<le> c \<and> c \<le> CHR ''Z'' then char_of (of_char c + (32::nat)) else c)"

text \<open>\<^verbatim>\<open>validate\<close> for \<^verbatim>\<open>bool\<close>.\<close>

definition validate_bool :: "any option \<Rightarrow> string list \<Rightarrow> po_error + any" where
  "validate_bool v xs =
     andThen (check_first_occurrence v) (\<lambda>_.
     andThen (get_single_string xs True) (\<lambda>s0.
       let s = map to_lower s0 in
       if s = [] \<or> s = ''on'' \<or> s = ''yes'' \<or> s = ''1'' \<or> s = ''true''
       then Inr (any_bool True)
       else if s = ''off'' \<or> s = ''no'' \<or> s = ''0'' \<or> s = ''false''
       then Inr (any_bool False)
       else Inl (invalid_bool_value s)))"

text \<open>\<^verbatim>\<open>validate\<close> for \<^verbatim>\<open>std::string\<close>.\<close>

definition validate_string :: "any option \<Rightarrow> string list \<Rightarrow> po_error + any" where
  "validate_string v xs =
     andThen (check_first_occurrence v) (\<lambda>_.
     andThen (get_single_string xs False) (\<lambda>s. Inr (any_string s)))"

text \<open>
  \<^verbatim>\<open>boost::lexical_cast<std::size_t>\<close> of a string: an optional sign, then decimal
  digits only, at least one, whose value fits 64 bits; with a minus sign the result is
  negated in unsigned arithmetic.
\<close>

definition is_digit :: "char \<Rightarrow> bool" where
  "is_digit c = (CHR ''0'' \<le> c \<and> c \<le> CHR ''9'')"

definition digit_value :: "char \<Rightarrow> nat" where
  "digit_value c = of_char c - of_char CHR ''0''"

definition decimal_value :: "string \<Rightarrow> nat" where
  "decimal_value ds = foldl (\<lambda>acc c. 10 * acc + digit_value c) 0 ds"

definition lexical_cast_size_t :: "string \<Rightarrow> size_t option" where
  "lexical_cast_size_t s =
     (case s of
        [] \<Rightarrow> None
      | c # cs \<Rightarrow>
          let has_minus = (c = CHR ''-'');
              ds = (if has_minus \<or> c = CHR ''+'' then cs else s)
          in if ds = [] \<or> \<not> list_all is_digit ds \<or> decimal_value ds > 2 ^ 64 - 1
             then None
             else if has_minus then Some (0 - word_of_nat (decimal_value ds))
             else Some (word_of_nat (decimal_value ds)))"

text \<open>The generic \<^verbatim>\<open>validate\<close>, at \<^verbatim>\<open>std::size_t\<close>.\<close>

definition validate_size_t :: "any option \<Rightarrow> string list \<Rightarrow> po_error + any" where
  "validate_size_t v xs =
     andThen (check_first_occurrence v) (\<lambda>_.
     andThen (get_single_string xs False) (\<lambda>s.
       case lexical_cast_size_t s of
         None \<Rightarrow> Inl (invalid_option_value s)
       | Some n \<Rightarrow> Inr (any_size n)))"

text \<open>
  \<^verbatim>\<open>validate\<close> for \<^verbatim>\<open>std::vector<std::string>\<close>: every token is validated as a
  string of its own and appended to the vector already stored.
\<close>

definition validate_strings :: "any option \<Rightarrow> string list \<Rightarrow> po_error + any" where
  "validate_strings v xs =
     (case v of
        None \<Rightarrow> Inr (any_strings xs)
      | Some (any_strings tv) \<Rightarrow> Inr (any_strings (tv @ xs))
      | Some _ \<Rightarrow> Inr (any_strings xs))"

text \<open>\<^verbatim>\<open>untyped_value::xparse\<close>, the semantic of an option declared without a value.\<close>

definition untyped_xparse :: "any option \<Rightarrow> string list \<Rightarrow> po_error + any" where
  "untyped_xparse v new_tokens =
     (if v \<noteq> None then Inl multiple_occurrences
      else if length new_tokens > 1 then Inl multiple_values
      else Inr (any_string (if new_tokens = [] then [] else hd new_tokens)))"

text \<open>
  The builders: \<^verbatim>\<open>po::value<T>()\<close> takes exactly one token;
  \<^verbatim>\<open>->default_value(v)\<close>, \<^verbatim>\<open>->zero_tokens()\<close> and \<^verbatim>\<open>->required()\<close> change one
  attribute; \<^verbatim>\<open>po::bool_switch()\<close> is a \<^verbatim>\<open>bool\<close> value with default \<^verbatim>\<open>false\<close> and no
  token; an option declared by name and help text alone is an untyped value with no token.
\<close>

definition typed_value :: "(any option \<Rightarrow> string list \<Rightarrow> po_error + any) \<Rightarrow> value_semantic" where
  "typed_value validate =
     \<lparr>min_tokens = 1, max_tokens = 1, is_required = False, parse = validate,
      apply_default = None\<rparr>"

definition default_value :: "any \<Rightarrow> value_semantic \<Rightarrow> value_semantic" where
  "default_value v sem = sem\<lparr>apply_default := Some v\<rparr>"

definition zero_tokens :: "value_semantic \<Rightarrow> value_semantic" where
  "zero_tokens sem = sem\<lparr>min_tokens := 0, max_tokens := 0\<rparr>"

definition required :: "value_semantic \<Rightarrow> value_semantic" where
  "required sem = sem\<lparr>is_required := True\<rparr>"

definition bool_switch :: value_semantic where
  "bool_switch = zero_tokens (default_value (any_bool False) (typed_value validate_bool))"

definition untyped_value :: value_semantic where
  "untyped_value =
     \<lparr>min_tokens = 0, max_tokens = 0, is_required = False, parse = untyped_xparse,
      apply_default = None\<rparr>"

subsection \<open>Looking an option up by name\<close>

datatype match_result = no_match | full_match | approximate_match

text \<open>
  \<^verbatim>\<open>option_description::match\<close>: a long name ending in \<^verbatim>\<open>*\<close> matches every name it
  is a prefix of; the long name matches itself, and with \<^verbatim>\<open>approx\<close> every
  prefix of itself; the short name (stored with its dash, empty when there is none)
  matches itself.
\<close>

definition match :: "option_description \<Rightarrow> string \<Rightarrow> bool \<Rightarrow> match_result" where
  "match d opt approx =
     (let nm = long_name d;
          r0 = (if nm \<noteq> [] \<and> last nm = CHR ''*'' \<and> prefix (butlast nm) opt
                then approximate_match else no_match);
          r = (if nm = [] then no_match
               else if nm = opt then full_match
               else if approx \<and> prefix opt nm then approximate_match
               else r0)
      in if r \<noteq> full_match \<and> short_name d = opt then full_match else r)"

text \<open>
  \<^verbatim>\<open>option_description::key\<close>: the name under which the option is stored.
\<close>

definition key :: "option_description \<Rightarrow> string \<Rightarrow> string" where
  "key d opt =
     (if long_name d \<noteq> []
      then (if CHR ''*'' \<in> set (long_name d) then opt else long_name d)
      else short_name d)"

text \<open>
  \<^verbatim>\<open>options_description::find_nothrow\<close>: the one full match, or else the one
  approximate match; two full matches, or two approximate ones and no full one, are
  ambiguous.
\<close>

definition find_nothrow ::
  "option_description list \<Rightarrow> string \<Rightarrow> bool \<Rightarrow> po_error + option_description option" where
  "find_nothrow opts name approx =
     (let full_matches = filter (\<lambda>d. match d name approx = full_match) opts;
          approximate_matches = filter (\<lambda>d. match d name approx = approximate_match) opts
      in if length full_matches > 1 then Inl (ambiguous_option name)
         else if full_matches = [] \<and> length approximate_matches > 1
         then Inl (ambiguous_option name)
         else (case full_matches of
                 d # _ \<Rightarrow> Inr (Some d)
               | [] \<Rightarrow> (case approximate_matches of
                           d # _ \<Rightarrow> Inr (Some d)
                         | [] \<Rightarrow> Inr None)))"


subsection \<open>The command-line tokens\<close>

text \<open>
  \<^verbatim>\<open>basic_option\<close>: an option as the command line gives it. A positional token has an
  empty \<^verbatim>\<open>string_key\<close>; \<^verbatim>\<open>position_key\<close> is -1 until positions are assigned.
\<close>

record basic_option =
  string_key :: string
  position_key :: int
  opt_value :: "string list"
  original_tokens :: "string list"
  unregistered :: bool

definition new_option :: basic_option where
  "new_option =
     \<lparr>string_key = [], position_key = -1, opt_value = [], original_tokens = [],
      unregistered = False\<rparr>"

definition INT_MAX :: int where
  "INT_MAX = 2147483647"

text \<open>
  A style parser looks at the first of the remaining tokens (there is one) and returns
  the options it recognised with the tokens left.
\<close>

type_synonym style_parser =
  "option_description list \<Rightarrow> string list \<Rightarrow> po_error + (basic_option list \<times> string list)"

text \<open>
  \<^verbatim>\<open>cmdline::parse_long_option\<close>: \<^verbatim>\<open>--name\<close> or \<^verbatim>\<open>--name=value\<close>; an equals
  sign with nothing after it is an error.
\<close>

definition parse_long_option :: style_parser where
  "parse_long_option desc args =
     (let tok = hd args in
      if length tok \<ge> 3 \<and> tok ! 0 = CHR ''-'' \<and> tok ! 1 = CHR ''-'' then
        (let p = length (takeWhile (\<lambda>c. c \<noteq> CHR ''='') tok) in
         if p < length tok then
           (let name = take (p - 2) (drop 2 tok); adjacent = drop (p + 1) tok in
            if adjacent = []
            then Inl (invalid_command_line_syntax empty_adjacent_parameter name)
            else Inr ([new_option\<lparr>string_key := name, opt_value := [adjacent],
                                   original_tokens := [tok]\<rparr>], tl args))
         else Inr ([new_option\<lparr>string_key := drop 2 tok, original_tokens := [tok]\<rparr>],
                   tl args))
      else Inr ([], args))"

text \<open>
  \<^verbatim>\<open>cmdline::parse_short_option\<close>: \<^verbatim>\<open>-x\<close> with the rest of the token as its
  adjacent value, unless \<^verbatim>\<open>-x\<close> is declared and takes no token: then the rest is
  further short options (the loop over the grouped options).
\<close>

fun short_options :: "option_description list \<Rightarrow> string \<Rightarrow> string \<Rightarrow> string \<Rightarrow>
    po_error + basic_option list" where
  "short_options desc tok name [] =
     andThen (find_nothrow desc name False) (\<lambda>d.
       Inr [new_option\<lparr>string_key := name, original_tokens := [tok]\<rparr>])"
| "short_options desc tok name (c # cs) =
     andThen (find_nothrow desc name False) (\<lambda>d.
       if (case d of Some d' \<Rightarrow> max_tokens (semantic d') = 0 | None \<Rightarrow> False)
       then andThen (short_options desc tok [CHR ''-'', c] cs) (\<lambda>more.
              Inr (new_option\<lparr>string_key := name\<rparr> # more))
       else Inr [new_option\<lparr>string_key := name, opt_value := [c # cs],
                             original_tokens := [tok]\<rparr>])"

definition parse_short_option :: style_parser where
  "parse_short_option desc args =
     (let tok = hd args in
      if length tok \<ge> 2 \<and> tok ! 0 = CHR ''-'' \<and> tok ! 1 \<noteq> CHR ''-'' then
        andThen (short_options desc tok (take 2 tok) (drop 2 tok)) (\<lambda>result.
          Inr (result, tl args))
      else Inr ([], args))"

text \<open>
  \<^verbatim>\<open>cmdline::parse_terminator\<close>: after \<^verbatim>\<open>--\<close> every token is positional.
\<close>

definition parse_terminator :: style_parser where
  "parse_terminator desc args =
     (if hd args = ''--''
      then Inr (map (\<lambda>a. new_option\<lparr>opt_value := [a], original_tokens := [a],
                                      position_key := INT_MAX\<rparr>) (tl args), [])
      else Inr ([], args))"

text \<open>The style parsers of the default style, in the order in which they are tried.\<close>

definition style_parsers :: "style_parser list" where
  "style_parsers = [parse_long_option, parse_short_option, parse_terminator]"

subsection \<open>Completing an option\<close>

text \<open>
  In \<^verbatim>\<open>cmdline::finish_option\<close>, whether the next token is, syntactically, an option:
  the style parsers are tried on it alone until one returns something.
\<close>

fun followed_option :: "style_parser list \<Rightarrow> option_description list \<Rightarrow> string \<Rightarrow>
    po_error + bool" where
  "followed_option [] desc t = Inr False"
| "followed_option (p # ps) desc t =
     andThen (p desc [t]) (\<lambda>(r, _).
       if r \<noteq> [] then Inr True else followed_option ps desc t)"

text \<open>
  The loop of \<^verbatim>\<open>finish_option\<close> that moves the tokens an option still needs from
  the command line to the option. A token that looks like an option and names a declared
  one is not taken: the parameter is missing.
\<close>

fun take_tokens :: "option_description list \<Rightarrow> nat \<Rightarrow> basic_option \<Rightarrow> string list \<Rightarrow>
    po_error + (basic_option \<times> string list)" where
  "take_tokens desc n opt [] = Inr (opt, [])"
| "take_tokens desc 0 opt (t # ts) = Inr (opt, t # ts)"
| "take_tokens desc (Suc n) opt (t # ts) =
     andThen (followed_option style_parsers desc t) (\<lambda>looks_like_option.
     andThen (if looks_like_option then find_nothrow desc t True else Inr None) (\<lambda>od.
       if od \<noteq> None then Inl (invalid_command_line_syntax missing_parameter t)
       else take_tokens desc n
              (opt\<lparr>opt_value := opt_value opt @ [t],
                   original_tokens := original_tokens opt @ [t]\<rparr>) ts))"

text \<open>
  \<^verbatim>\<open>cmdline::finish_option\<close>: a positional token is left alone; an option with a name
  is looked up (with guessing). An undeclared one is marked unregistered when that is
  allowed and is an \<^verbatim>\<open>unknown_option\<close> error otherwise. A declared one gets its
  canonical name and the tokens it requires.
\<close>

definition finish_option :: "option_description list \<Rightarrow> bool \<Rightarrow> basic_option \<Rightarrow> string list \<Rightarrow>
    po_error + (basic_option \<times> string list)" where
  "finish_option desc allow_unregistered opt other_tokens =
     (if string_key opt = [] then Inr (opt, other_tokens)
      else
        let original_token_for_exceptions =
              (if original_tokens opt \<noteq> [] then hd (original_tokens opt) else string_key opt)
        in
        andThen (find_nothrow desc (string_key opt) True) (\<lambda>xd.
          case xd of
            None \<Rightarrow>
              if allow_unregistered then Inr (opt\<lparr>unregistered := True\<rparr>, other_tokens)
              else Inl (unknown_option original_token_for_exceptions)
          | Some d \<Rightarrow>
              let opt1 = opt\<lparr>string_key := key d (string_key opt)\<rparr>;
                  mn = min_tokens (semantic d);
                  mx = max_tokens (semantic d);
                  present_tokens = length (opt_value opt1) + length other_tokens
              in if present_tokens \<ge> mn then
                   (if opt_value opt1 \<noteq> [] \<and> mx = 0
                    then Inl (invalid_command_line_syntax extra_parameter
                                original_token_for_exceptions)
                    else take_tokens desc (mn - length (opt_value opt1)) opt1 other_tokens)
                 else Inl (invalid_command_line_syntax missing_parameter
                             original_token_for_exceptions)))"

text \<open>
  What \<^verbatim>\<open>cmdline::run\<close> does with the options one style parser returned: all but the
  last are finished with no further token at hand, the last with the rest of the
  command line.
\<close>

fun finish_options :: "option_description list \<Rightarrow> bool \<Rightarrow> basic_option list \<Rightarrow> string list \<Rightarrow>
    po_error + (basic_option list \<times> string list)" where
  "finish_options desc allow_unregistered [] args = Inr ([], args)"
| "finish_options desc allow_unregistered [opt] args =
     andThen (finish_option desc allow_unregistered opt args) (\<lambda>(opt', args').
       Inr ([opt'], args'))"
| "finish_options desc allow_unregistered (opt # opts) args =
     andThen (finish_option desc allow_unregistered opt []) (\<lambda>(opt', _).
     andThen (finish_options desc allow_unregistered opts args) (\<lambda>(opts', args').
       Inr (opt' # opts', args')))"

text \<open>
  One round of the loop of \<^verbatim>\<open>cmdline::run\<close> over the style parsers: the first parser
  that consumes a token ends the round.
\<close>

fun try_style_parsers :: "style_parser list \<Rightarrow> option_description list \<Rightarrow> bool \<Rightarrow>
    string list \<Rightarrow> basic_option list \<Rightarrow> po_error + (basic_option list \<times> string list \<times> bool)" where
  "try_style_parsers [] desc allow_unregistered args result = Inr (result, args, False)"
| "try_style_parsers (p # ps) desc allow_unregistered args result =
     andThen (p desc args) (\<lambda>(next, args1).
     andThen (finish_options desc allow_unregistered next args1) (\<lambda>(next', args2).
       if length args2 \<noteq> length args then Inr (result @ next', args2, True)
       else try_style_parsers ps desc allow_unregistered args2 (result @ next')))"


subsection \<open>Termination of the token loop\<close>

text \<open>
  No style parser and no completion of an option adds a token to the command line, so
  every round of the loop of \<^verbatim>\<open>cmdline::run\<close> leaves fewer tokens.
\<close>

definition shrinking :: "style_parser \<Rightarrow> bool" where
  "shrinking p = (\<forall>desc args r args'. p desc args = Inr (r, args') \<longrightarrow> length args' \<le> length args)"

lemma andThen_Inr_iff:
  "andThen r f = Inr y \<longleftrightarrow> (\<exists>x. r = Inr x \<and> f x = Inr y)"
  by (cases r) (simp_all add: andThen_def)

lemma andThen_Inl_iff:
  "andThen r f = Inl e \<longleftrightarrow> (r = Inl e \<or> (\<exists>x. r = Inr x \<and> f x = Inl e))"
  by (cases r) (simp_all add: andThen_def)

lemma andThen_simps [simp]:
  "andThen (Inl e) f = Inl e"
  "andThen (Inr x) f = f x"
  by (simp_all add: andThen_def)

lemma shrinking_parse_long_option: "shrinking parse_long_option"
  by (auto simp: shrinking_def parse_long_option_def Let_def split: if_splits)

lemma shrinking_parse_short_option: "shrinking parse_short_option"
  by (auto simp: shrinking_def parse_short_option_def Let_def andThen_Inr_iff split: if_splits)

lemma shrinking_parse_terminator: "shrinking parse_terminator"
  by (auto simp: shrinking_def parse_terminator_def split: if_splits)

lemma shrinking_style_parsers: "\<forall>p \<in> set style_parsers. shrinking p"
  by (simp add: style_parsers_def shrinking_parse_long_option shrinking_parse_short_option
      shrinking_parse_terminator)

lemma take_tokens_length:
  "take_tokens desc n opt ts = Inr (opt', ts') \<Longrightarrow> length ts' \<le> length ts"
proof (induction desc n opt ts rule: take_tokens.induct)
  case (3 desc n opt t ts)
  then show ?case
    by (fastforce simp: andThen_Inr_iff split: if_splits)
qed simp_all

lemma finish_option_length:
  "finish_option desc allow opt ts = Inr (opt', ts') \<Longrightarrow> length ts' \<le> length ts"
  by (auto simp: finish_option_def Let_def andThen_Inr_iff
      split: if_splits option.splits dest: take_tokens_length)

lemma finish_options_length:
  "finish_options desc allow opts ts = Inr (opts', ts') \<Longrightarrow> length ts' \<le> length ts"
proof (induction desc allow opts ts arbitrary: opts' ts' rule: finish_options.induct)
  case (1 desc allow args)
  then show ?case by simp
next
  case (2 desc allow opt args)
  then show ?case
    by (auto simp: andThen_Inr_iff dest: finish_option_length)
next
  case (3 desc allow opt v va args)
  then show ?case
    by (auto simp: andThen_Inr_iff)
qed

lemma try_style_parsers_length:
  "\<forall>p \<in> set ps. shrinking p \<Longrightarrow>
   try_style_parsers ps desc allow args result = Inr (result', args', ok) \<Longrightarrow>
   length args' \<le> length args \<and> (ok \<longrightarrow> length args' < length args)"
proof (induction ps arbitrary: args result)
  case Nil
  then show ?case by simp
next
  case (Cons p ps)
  from Cons.prems(2) obtain next1 args1 next2 args2 where
    p: "p desc args = Inr (next1, args1)" and
    f: "finish_options desc allow next1 args1 = Inr (next2, args2)" and
    r: "(if length args2 \<noteq> length args then Inr (result @ next2, args2, True)
         else try_style_parsers ps desc allow args2 (result @ next2)) = Inr (result', args', ok)"
    by (auto simp: andThen_Inr_iff)
  from Cons.prems(1) p have l1: "length args1 \<le> length args"
    by (auto simp: shrinking_def)
  from f have l2: "length args2 \<le> length args1"
    by (rule finish_options_length)
  show ?case
  proof (cases "length args2 \<noteq> length args")
    case True
    with r l1 l2 show ?thesis by auto
  next
    case False
    with r have "try_style_parsers ps desc allow args2 (result @ next2) = Inr (result', args', ok)"
      by simp
    with Cons.IH [of args2 "result @ next2"] Cons.prems(1) False show ?thesis
      by auto
  qed
qed

lemma style_round_consumes:
  "try_style_parsers style_parsers desc allow args [] = Inr (result, args', True) \<Longrightarrow>
   length args' < length args"
  using try_style_parsers_length [OF shrinking_style_parsers] by blast

lemma style_round_keeps:
  "try_style_parsers style_parsers desc allow args [] = Inr (result, args', False) \<Longrightarrow>
   args \<noteq> [] \<Longrightarrow> length (tl args') < length args"
  using try_style_parsers_length [OF shrinking_style_parsers, of desc allow args "[]" result args' False]
  by (cases args') auto

subsection \<open>The parser\<close>

text \<open>
  The first loop of \<^verbatim>\<open>cmdline::run\<close>: while tokens remain, try the style parsers; a
  token that none of them consumes is a positional option.
\<close>

function run_tokens :: "option_description list \<Rightarrow> bool \<Rightarrow> string list \<Rightarrow>
    po_error + basic_option list" where
  "run_tokens desc allow_unregistered args =
     (if args = [] then Inr []
      else
        andThen (try_style_parsers style_parsers desc allow_unregistered args [])
          (\<lambda>(result, args', ok).
             if ok then
               andThen (run_tokens desc allow_unregistered args') (\<lambda>more. Inr (result @ more))
             else
               andThen (run_tokens desc allow_unregistered (tl args')) (\<lambda>more.
                 Inr (result @ new_option\<lparr>opt_value := [hd args'],
                                           original_tokens := [hd args']\<rparr> # more))))"
  by pat_completeness auto
termination
  by (relation "measure (\<lambda>(desc, allow, args). length args)")
    (auto dest: style_round_consumes style_round_keeps)

declare run_tokens.simps [simp del]

lemma run_tokens_Nil [simp]: "run_tokens desc allow_unregistered [] = Inr []"
  by (subst run_tokens.simps) simp

lemma run_tokens_Cons:
  "run_tokens desc allow_unregistered (t # ts) =
     andThen (try_style_parsers style_parsers desc allow_unregistered (t # ts) [])
       (\<lambda>(result, args', ok).
          if ok then
            andThen (run_tokens desc allow_unregistered args') (\<lambda>more. Inr (result @ more))
          else
            andThen (run_tokens desc allow_unregistered (tl args')) (\<lambda>more.
              Inr (result @ new_option\<lparr>opt_value := [hd args'],
                                        original_tokens := [hd args']\<rparr> # more)))"
  by (subst run_tokens.simps) simp


text \<open>
  The second loop of \<^verbatim>\<open>cmdline::run\<close>: a declared option that may take more tokens
  than it must (\<^verbatim>\<open>min_tokens < max_tokens\<close>) takes the positional options that follow
  it, up to its maximum, but none that came after the \<^verbatim>\<open>--\<close> terminator. Each
  positional option carries exactly one value.
\<close>

fun collect_following :: "option_description list \<Rightarrow> basic_option list \<Rightarrow>
    po_error + basic_option list" where
  "collect_following desc [] = Inr []"
| "collect_following desc (opt # rest) =
     (if string_key opt = [] then
        andThen (collect_following desc rest) (\<lambda>more. Inr (opt # more))
      else
        andThen (find_nothrow desc (string_key opt) True) (\<lambda>xd.
          case xd of
            None \<Rightarrow> andThen (collect_following desc rest) (\<lambda>more. Inr (opt # more))
          | Some d \<Rightarrow>
              let mn = min_tokens (semantic d); mx = max_tokens (semantic d) in
              if mn < mx \<and> length (opt_value opt) < mx then
                (let can_take_more = mx - length (opt_value opt);
                     taken = takeWhile (\<lambda>opt2. string_key opt2 = [] \<and> position_key opt2 \<noteq> INT_MAX)
                               (take can_take_more rest);
                     opt' = opt\<lparr>opt_value := opt_value opt @ map (\<lambda>opt2. hd (opt_value opt2)) taken,
                                original_tokens := original_tokens opt @
                                  map (\<lambda>opt2. hd (original_tokens opt2)) taken\<rparr>
                 in andThen (collect_following desc (drop (length taken) rest)) (\<lambda>more.
                      Inr (opt' # more)))
              else andThen (collect_following desc rest) (\<lambda>more. Inr (opt # more))))"

text \<open>
  \<^verbatim>\<open>positional_options_description\<close>: the names of the first positions and the name
  of all further ones (\<^verbatim>\<open>add(name, -1)\<close>), empty when there is none.
\<close>

record positional_options_description =
  names :: "string list"
  trailing :: string

definition max_total_count :: "positional_options_description \<Rightarrow> nat" where
  "max_total_count p = (if trailing p = [] then length (names p) else 4294967295)"

definition name_for_position :: "positional_options_description \<Rightarrow> nat \<Rightarrow> string" where
  "name_for_position p position =
     (if position < length (names p) then names p ! position else trailing p)"

text \<open>The third loop: the positional options are numbered from 0.\<close>

fun assign_position_keys :: "int \<Rightarrow> basic_option list \<Rightarrow> basic_option list" where
  "assign_position_keys next_key [] = []"
| "assign_position_keys next_key (opt # rest) =
     (if string_key opt = []
      then opt\<lparr>position_key := next_key\<rparr> # assign_position_keys (next_key + 1) rest
      else opt # assign_position_keys next_key rest)"

text \<open>
  The fourth loop, run when the parser was given a positional description: each
  positional option gets the name of its position.
\<close>

fun name_positionals :: "positional_options_description \<Rightarrow> nat \<Rightarrow> basic_option list \<Rightarrow>
    po_error + basic_option list" where
  "name_positionals p position [] = Inr []"
| "name_positionals p position (opt # rest) =
     (if position_key opt \<noteq> -1 then
        (if position \<ge> max_total_count p then Inl too_many_positional_options_error
         else andThen (name_positionals p (position + 1) rest) (\<lambda>more.
                Inr (opt\<lparr>string_key := name_for_position p position\<rparr> # more)))
      else andThen (name_positionals p position rest) (\<lambda>more. Inr (opt # more)))"

text \<open>
  \<^verbatim>\<open>cmdline::run\<close>, which is what \<^verbatim>\<open>command_line_parser::run\<close> returns: \<^verbatim>\<open>args\<close> are
  the arguments after the program name.
\<close>

definition cmdline_run :: "option_description list \<Rightarrow> bool \<Rightarrow>
    positional_options_description option \<Rightarrow> string list \<Rightarrow> po_error + basic_option list" where
  "cmdline_run desc allow_unregistered positional args =
     andThen (run_tokens desc allow_unregistered args) (\<lambda>result.
     andThen (collect_following desc result) (\<lambda>result2.
       let result3 = assign_position_keys 0 result2 in
       case positional of
         None \<Rightarrow> Inr result3
       | Some p \<Rightarrow> name_positionals p 0 result3))"

subsection \<open>Storing the parsed options\<close>

text \<open>
  \<^verbatim>\<open>options_description::find\<close>: \<^verbatim>\<open>find_nothrow\<close>, and an error when nothing is
  found.
\<close>

definition find_option :: "option_description list \<Rightarrow> string \<Rightarrow> bool \<Rightarrow>
    po_error + option_description" where
  "find_option desc name approx =
     andThen (find_nothrow desc name approx) (\<lambda>d.
       case d of None \<Rightarrow> Inl (unknown_option name) | Some d' \<Rightarrow> Inr d')"

text \<open>
  The first loop of \<^verbatim>\<open>store\<close>: positional options without a name and unregistered
  options are skipped; every other option is parsed by its semantic into the value
  stored under its name.
\<close>

fun store_options :: "option_description list \<Rightarrow> basic_option list \<Rightarrow> variables_map \<Rightarrow>
    po_error + variables_map" where
  "store_options desc [] m = Inr m"
| "store_options desc (opt # rest) m =
     (let option_name = string_key opt in
      if option_name = [] then store_options desc rest m
      else if unregistered opt then store_options desc rest m
      else
        andThen (find_option desc option_name False) (\<lambda>d.
        andThen (parse (semantic d) (m option_name) (opt_value opt)) (\<lambda>v.
          store_options desc rest (m(option_name \<mapsto> v)))))"

text \<open>The second loop of \<^verbatim>\<open>store\<close>: an option that was not given gets its default.\<close>

fun store_defaults :: "option_description list \<Rightarrow> variables_map \<Rightarrow> variables_map" where
  "store_defaults [] m = m"
| "store_defaults (d # rest) m =
     (let k = key d [] in
      if k = [] then store_defaults rest m
      else if m k = None then
        (case apply_default (semantic d) of
           Some def \<Rightarrow> store_defaults rest (m(k \<mapsto> def))
         | None \<Rightarrow> store_defaults rest m)
      else store_defaults rest m)"

text \<open>\<^verbatim>\<open>store\<close> into a variables map in which nothing was stored before.\<close>

definition store :: "option_description list \<Rightarrow> basic_option list \<Rightarrow> po_error + variables_map" where
  "store desc options =
     andThen (store_options desc options Map.empty) (\<lambda>m. Inr (store_defaults desc m))"

text \<open>
  \<^verbatim>\<open>notify\<close>: the required options that \<^verbatim>\<open>store\<close> recorded are visited in the order
  of their names, and the first without a value is an error. (The notifiers of the
  options, which belong to the tools, are not part of this model.)
\<close>

definition required_keys :: "option_description list \<Rightarrow> string list" where
  "required_keys desc =
     sort (filter (\<lambda>k. k \<noteq> []) (map (\<lambda>d. key d []) (filter (\<lambda>d. is_required (semantic d)) desc)))"

definition notify :: "option_description list \<Rightarrow> variables_map \<Rightarrow> po_error + unit" where
  "notify desc m =
     (case filter (\<lambda>k. m k = None) (required_keys desc) of
        [] \<Rightarrow> Inr ()
      | k # _ \<Rightarrow> Inl (required_option k))"


section \<open>The driver\<close>

subsection \<open>The tool registry\<close>

text \<open>
  Modelled from the spec: \<^verbatim>\<open>tool_registry.hpp\<close>, with \<^verbatim>\<open>ToolInterface\<close>,
  \<^verbatim>\<open>globalTools\<close> and \<^verbatim>\<open>enumerateToolNames\<close>, is not among the sources. A tool is what
  the driver uses of it: the options it declares (\<^verbatim>\<open>addToolOptions\<close>) and its run
  (\<^verbatim>\<open>setRuntimeConfig\<close>, \<^verbatim>\<open>init\<close> and the graph manager's \<^verbatim>\<open>run\<close> of its graph
  builder, all external), which returns a status or throws. The registry maps tool names
  to tools: a list of registrations, looked up by name. \<^verbatim>\<open>enumerateToolNames\<close> is the
  spec's full sorted list of the registered names.
\<close>

record Tool =
  addToolOptions :: "option_description list"
  runTool :: "RuntimeConfig \<Rightarrow> variables_map \<Rightarrow> exn + int"

type_synonym ToolFactoryRegistry = "(string \<times> Tool) list"

definition enumerateToolNames :: "ToolFactoryRegistry \<Rightarrow> string list" where
  "enumerateToolNames tools = sort (remdups (map fst tools))"

subsection \<open>Output and termination of the process\<close>

text \<open>
  What the driver writes, in order: the usage line with \<^verbatim>\<open>argv[0]\<close> (standard output),
  the request to choose a tool with the tool names (standard error), the unrecognised tool
  name (standard error), the log line of the selected tool, and the description of all
  options that the help prints (standard output).
\<close>

datatype event =
    cout_usage string
  | cerr_choose_tool "string list"
  | cerr_unrecognised_tool string
  | log_selected_tool string
  | cout_all_options "option_description list"

text \<open>
  A function of the driver stops early by throwing or by calling \<^verbatim>\<open>std::exit\<close>. The
  process ends with the status that \<^verbatim>\<open>main\<close> returns or \<^verbatim>\<open>std::exit\<close> was given,
  or, on an exception that nothing catches, in \<^verbatim>\<open>std::terminate\<close>, which aborts it:
  an abnormal termination, never status 0.
\<close>

datatype stop = Thrown exn | Exit_called int

datatype process_end = Exited int | Aborted exn

definition nonzero_status :: "process_end \<Rightarrow> bool" where
  "nonzero_status r = (case r of Exited n \<Rightarrow> n \<noteq> 0 | Aborted _ \<Rightarrow> True)"

subsection \<open>parseToolName\<close>

text \<open>The options and the positional description of \<^verbatim>\<open>parseToolName\<close> (lines 22 to 39).\<close>

definition tool_selection_options :: "option_description list" where
  "tool_selection_options =
     [\<lparr>long_name = ''list-tools'', short_name = [], semantic = typed_value validate_string\<rparr>,
      \<lparr>long_name = ''tool-name'', short_name = [], semantic = typed_value validate_string\<rparr>,
      \<lparr>long_name = ''misc-positional'', short_name = [],
       semantic = typed_value validate_strings\<rparr>]"

definition tool_selection_positional :: positional_options_description where
  "tool_selection_positional = \<lparr>names = [''tool-name''], trailing = ''misc-positional''\<rparr>"

text \<open>
  \<^verbatim>\<open>parseToolName\<close> (lines 18 to 63): \<^verbatim>\<open>argv0\<close> is the program name and \<^verbatim>\<open>args\<close>
  the arguments after it. An error of the parser or of \<^verbatim>\<open>store\<close> leaves the function
  before anything is written.
\<close>

definition parseToolName :: "ToolFactoryRegistry \<Rightarrow> string \<Rightarrow> string list \<Rightarrow>
    event list \<times> (exn + string \<times> Tool)" where
  "parseToolName globalTools argv0 args =
     (case andThen (cmdline_run tool_selection_options True (Some tool_selection_positional) args)
             (store tool_selection_options) of
        Inl e \<Rightarrow> ([], Inl (program_options_error e))
      | Inr m \<Rightarrow>
          if count m ''tool-name'' = 0 then
            ([cout_usage argv0, cerr_choose_tool (enumerateToolNames globalTools)],
             Inl (runtime_error ''No tool specified.''))
          else
            (case andThen (at m ''tool-name'') as_string of
               Inl e \<Rightarrow> ([], Inl e)
             | Inr toolName \<Rightarrow>
                 (case map_of globalTools toolName of
                    None \<Rightarrow>
                      ([cerr_unrecognised_tool toolName,
                        cerr_choose_tool (enumerateToolNames globalTools)],
                       Inl (runtime_error ''Unrecognised tool name.''))
                  | Some factoryFunc \<Rightarrow>
                      ([log_selected_tool toolName], Inr (toolName, factoryFunc)))))"

text \<open>
  The spec's \<^verbatim>\<open>UsageError\<close> and \<^verbatim>\<open>UnknownToolError\<close> are the two
  \<^verbatim>\<open>std::runtime_error\<close>s, with what is written before each is thrown; its
  \<^verbatim>\<open>InvalidOptionError\<close> is any error of the option parser.
\<close>

definition UsageError :: "ToolFactoryRegistry \<Rightarrow> string \<Rightarrow> event list \<times> (exn + string \<times> Tool)" where
  "UsageError globalTools argv0 =
     ([cout_usage argv0, cerr_choose_tool (enumerateToolNames globalTools)],
      Inl (runtime_error ''No tool specified.''))"

definition UnknownToolError :: "ToolFactoryRegistry \<Rightarrow> string \<Rightarrow>
    event list \<times> (exn + string \<times> Tool)" where
  "UnknownToolError globalTools toolName =
     ([cerr_unrecognised_tool toolName, cerr_choose_tool (enumerateToolNames globalTools)],
      Inl (runtime_error ''Unrecognised tool name.''))"

definition InvalidOptionError :: "exn \<Rightarrow> bool" where
  "InvalidOptionError e = (case e of program_options_error _ \<Rightarrow> True | _ \<Rightarrow> False)"

subsection \<open>parseOptions\<close>

text \<open>The general options of \<^verbatim>\<open>parseOptions\<close> (lines 70 to 97).\<close>

definition general_options :: "option_description list" where
  "general_options =
     [\<lparr>long_name = ''help'', short_name = [], semantic = untyped_value\<rparr>,
      \<lparr>long_name = ''model'', short_name = [],
       semantic = default_value (any_bool False) bool_switch\<rparr>,
      \<lparr>long_name = ''ipus'', short_name = [],
       semantic = default_value (any_size 1) (typed_value validate_size_t)\<rparr>,
      \<lparr>long_name = ''save-exe'', short_name = [],
       semantic = default_value (any_string []) (typed_value validate_string)\<rparr>,
      \<lparr>long_name = ''load-exe'', short_name = [],
       semantic = default_value (any_string []) (typed_value validate_string)\<rparr>,
      \<lparr>long_name = ''compile-only'', short_name = [],
       semantic = default_value (any_bool False) bool_switch\<rparr>,
      \<lparr>long_name = ''defer-attach'', short_name = [],
       semantic = default_value (any_bool False) bool_switch\<rparr>]"

text \<open>
  Lines 99 to 104: the strict parse of the arguments against the general options followed
  by the tool's, and the store of its result.
\<close>

definition parse_and_store :: "string list \<Rightarrow> option_description list \<Rightarrow> po_error + variables_map" where
  "parse_and_store args toolOptions =
     (let all = general_options @ toolOptions in
      andThen (cmdline_run all False None args) (store all))"

text \<open>
  \<^verbatim>\<open>parseOptions\<close> (lines 66 to 119): parse and store; then the help, which prints
  all options and exits with status 0; then \<^verbatim>\<open>notify\<close>; then the check of the two
  executable modes.
\<close>

definition parseOptions :: "string list \<Rightarrow> option_description list \<Rightarrow>
    event list \<times> (stop + variables_map)" where
  "parseOptions args toolOptions =
     (let all = general_options @ toolOptions in
      case parse_and_store args toolOptions of
        Inl e \<Rightarrow> ([], Inl (Thrown (program_options_error e)))
      | Inr m \<Rightarrow>
          if count m ''help'' \<noteq> 0 then ([cout_all_options all], Inl (Exit_called 0))
          else
            (case notify all m of
               Inl e \<Rightarrow> ([], Inl (Thrown (program_options_error e)))
             | Inr _ \<Rightarrow>
                 (case checkExeModes m of
                    Inl e \<Rightarrow> ([], Inl (Thrown e))
                  | Inr m' \<Rightarrow> ([], Inr m'))))"

subsection \<open>main\<close>

text \<open>
  \<^verbatim>\<open>main\<close> (lines 136 to 152) catches nothing: what \<^verbatim>\<open>parseToolName\<close>,
  \<^verbatim>\<open>parseOptions\<close>, \<^verbatim>\<open>getRuntimeConfig\<close> or the tool throws aborts the process.
\<close>

definition main :: "ToolFactoryRegistry \<Rightarrow> string \<Rightarrow> string list \<Rightarrow> event list \<times> process_end" where
  "main globalTools argv0 args =
     (case parseToolName globalTools argv0 args of
        (out1, Inl e) \<Rightarrow> (out1, Aborted e)
      | (out1, Inr (toolName, tool)) \<Rightarrow>
          (case parseOptions args (addToolOptions tool) of
             (out2, Inl (Exit_called status)) \<Rightarrow> (out1 @ out2, Exited status)
           | (out2, Inl (Thrown e)) \<Rightarrow> (out1 @ out2, Aborted e)
           | (out2, Inr allOpts) \<Rightarrow>
               (case getRuntimeConfig allOpts of
                  Inl e \<Rightarrow> (out1 @ out2, Aborted e)
                | Inr config \<Rightarrow>
                    (case runTool tool config allOpts of
                       Inl e \<Rightarrow> (out1 @ out2, Aborted e)
                     | Inr status \<Rightarrow> (out1 @ out2, Exited status)))))"

section \<open>Config resolution\<close>

text \<open>
  On a map in which the six general options have their declared types, both functions
  are determined by the six values.
\<close>

lemma getRuntimeConfig_typed:
  assumes "args ''model'' = Some (any_bool m)" and "args ''ipus'' = Some (any_size n)"
    and "args ''save-exe'' = Some (any_string s)" and "args ''load-exe'' = Some (any_string l)"
    and "args ''compile-only'' = Some (any_bool c)" and "args ''defer-attach'' = Some (any_bool d)"
  shows "getRuntimeConfig args =
    Inr \<lparr>deviceCount = n, imagePath = (if s = [] then l else s), useSimulator = m,
         persist = (s \<noteq> []), restore = (l \<noteq> []), compileOnly = c, deferAttach = (c \<or> d)\<rparr>"
  using assms by (simp add: getRuntimeConfig_def at_def as_string_def as_bool_def as_size_t_def)

lemma well_typed_values:
  assumes "well_typed args"
  obtains m n s l c d where
    "args ''model'' = Some (any_bool m)" "args ''ipus'' = Some (any_size n)"
    "args ''save-exe'' = Some (any_string s)" "args ''load-exe'' = Some (any_string l)"
    "args ''compile-only'' = Some (any_bool c)" "args ''defer-attach'' = Some (any_bool d)"
  using assms unfolding well_typed_def
  by (auto split: option.splits any.splits)

lemma checkExeModes_typed:
  assumes "args ''save-exe'' = Some (any_string s)" and "args ''load-exe'' = Some (any_string l)"
  shows "checkExeModes args = (if s \<noteq> [] \<and> l \<noteq> [] then Inl MutuallyExclusiveModesError else Inr args)"
  using assms by (simp add: checkExeModes_def at_def as_string_def MutuallyExclusiveModesError_def)

text \<open>
  Claim C1. Config resolution is a function of the parsed options, and whenever
  \<^verbatim>\<open>save-exe\<close> and \<^verbatim>\<open>load-exe\<close> are both non-empty strings it fails with
  \<^verbatim>\<open>MutuallyExclusiveModesError\<close>, whatever the map holds (or lacks) for every other
  option; no \<^verbatim>\<open>RuntimeConfig\<close> is produced.
\<close>

theorem resolve_mutually_exclusive:
  assumes "args ''save-exe'' = Some (any_string a)" and "a \<noteq> []"
    and "args ''load-exe'' = Some (any_string b)" and "b \<noteq> []"
  shows "resolve args = Inl MutuallyExclusiveModesError \<and> (\<forall>cfg. resolve args \<noteq> Inr cfg)"
  using assms by (simp add: resolve_def checkExeModes_typed)

theorem resolve_mutually_exclusive_witness:
  "resolve [''save-exe'' \<mapsto> any_string ''a'', ''load-exe'' \<mapsto> any_string ''b'']
     = Inl MutuallyExclusiveModesError"
  using resolve_mutually_exclusive [of "[''save-exe'' \<mapsto> any_string ''a'', ''load-exe'' \<mapsto> any_string ''b'']" "''a''" "''b''"]
  by simp

text \<open>A map of parsed general options for the examples: the simulator off, one device.\<close>

definition sample_args :: "bool \<Rightarrow> bool \<Rightarrow> string \<Rightarrow> string \<Rightarrow> variables_map" where
  "sample_args c d s l =
     [''model'' \<mapsto> any_bool False, ''ipus'' \<mapsto> any_size 1, ''save-exe'' \<mapsto> any_string s,
      ''load-exe'' \<mapsto> any_string l, ''compile-only'' \<mapsto> any_bool c,
      ''defer-attach'' \<mapsto> any_bool d]"

text \<open>
  Claim C2. For every well-typed set of parsed options, \<^verbatim>\<open>getRuntimeConfig\<close> produces
  a configuration, and its \<^verbatim>\<open>deferAttach\<close> is \<^verbatim>\<open>compile-only\<close> or \<^verbatim>\<open>defer-attach\<close>: so
  is that of every configuration that config resolution produces. With \<^verbatim>\<open>compile-only\<close>
  true and \<^verbatim>\<open>defer-attach\<close> false it is true.
\<close>

theorem deferAttach_is_compile_only_or_defer_attach:
  assumes "well_typed args"
    and "args ''compile-only'' = Some (any_bool c)" and "args ''defer-attach'' = Some (any_bool d)"
  shows "(\<exists>cfg. getRuntimeConfig args = Inr cfg \<and> deferAttach cfg = (c \<or> d)) \<and>
         (\<forall>cfg. resolve args = Inr cfg \<longrightarrow> deferAttach cfg = (c \<or> d))"
proof -
  from assms(1) obtain m n s l c' d' where v:
    "args ''model'' = Some (any_bool m)" "args ''ipus'' = Some (any_size n)"
    "args ''save-exe'' = Some (any_string s)" "args ''load-exe'' = Some (any_string l)"
    "args ''compile-only'' = Some (any_bool c')" "args ''defer-attach'' = Some (any_bool d')"
    by (rule well_typed_values)
  with assms(2,3) have cd: "c' = c" "d' = d" by simp_all
  from getRuntimeConfig_typed [OF v] cd
  have g: "getRuntimeConfig args =
    Inr \<lparr>deviceCount = n, imagePath = (if s = [] then l else s), useSimulator = m,
         persist = (s \<noteq> []), restore = (l \<noteq> []), compileOnly = c, deferAttach = (c \<or> d)\<rparr>"
    by simp
  then have "\<exists>cfg. getRuntimeConfig args = Inr cfg \<and> deferAttach cfg = (c \<or> d)"
    by simp
  moreover have "\<forall>cfg. resolve args = Inr cfg \<longrightarrow> deferAttach cfg = (c \<or> d)"
    using g by (auto simp: resolve_def andThen_Inr_iff checkExeModes_typed [OF v(3,4)] split: if_splits)
  ultimately show ?thesis by blast
qed

theorem deferAttach_compile_only_witness:
  "well_typed (sample_args True False [] []) \<and>
   (\<exists>cfg. getRuntimeConfig (sample_args True False [] []) = Inr cfg \<and> deferAttach cfg = True) \<and>
   (\<exists>cfg. resolve (sample_args True False [] []) = Inr cfg \<and> deferAttach cfg = True)"
proof -
  have w: "well_typed (sample_args True False [] [])"
    by (simp add: well_typed_def sample_args_def)
  have r: "\<exists>cfg. resolve (sample_args True False [] []) = Inr cfg"
    by (simp add: resolve_def checkExeModes_def getRuntimeConfig_def at_def as_string_def
        as_bool_def as_size_t_def sample_args_def)
  from deferAttach_is_compile_only_or_defer_attach [OF w, of True False] r w
  show ?thesis by (auto simp: sample_args_def)
qed

text \<open>
  Claim C3. For every well-typed set of parsed options, the configuration has
  \<^verbatim>\<open>imagePath\<close> equal to \<^verbatim>\<open>save-exe\<close> when that is non-empty and to \<^verbatim>\<open>load-exe\<close>
  otherwise, \<^verbatim>\<open>persist\<close> equal to (\<^verbatim>\<open>save-exe\<close> non-empty) and \<^verbatim>\<open>restore\<close> equal to
  (\<^verbatim>\<open>load-exe\<close> non-empty); with \<^verbatim>\<open>save-exe\<close> = img and \<^verbatim>\<open>load-exe\<close> empty, config
  resolution gives image path img, persist true, restore false.
\<close>

theorem imagePath_persist_restore:
  assumes "well_typed args"
    and "args ''save-exe'' = Some (any_string s)" and "args ''load-exe'' = Some (any_string l)"
  shows "(\<exists>cfg. getRuntimeConfig args = Inr cfg \<and>
            imagePath cfg = (if s \<noteq> [] then s else l) \<and>
            persist cfg = (s \<noteq> []) \<and> restore cfg = (l \<noteq> [])) \<and>
         (\<forall>cfg. resolve args = Inr cfg \<longrightarrow>
            imagePath cfg = (if s \<noteq> [] then s else l) \<and>
            persist cfg = (s \<noteq> []) \<and> restore cfg = (l \<noteq> []))"
proof -
  from assms(1) obtain m n s' l' c d where v:
    "args ''model'' = Some (any_bool m)" "args ''ipus'' = Some (any_size n)"
    "args ''save-exe'' = Some (any_string s')" "args ''load-exe'' = Some (any_string l')"
    "args ''compile-only'' = Some (any_bool c)" "args ''defer-attach'' = Some (any_bool d)"
    by (rule well_typed_values)
  with assms(2,3) have sl: "s' = s" "l' = l" by simp_all
  from getRuntimeConfig_typed [OF v] sl
  have g: "getRuntimeConfig args =
    Inr \<lparr>deviceCount = n, imagePath = (if s = [] then l else s), useSimulator = m,
         persist = (s \<noteq> []), restore = (l \<noteq> []), compileOnly = c, deferAttach = (c \<or> d)\<rparr>"
    by simp
  then have "\<exists>cfg. getRuntimeConfig args = Inr cfg \<and>
            imagePath cfg = (if s \<noteq> [] then s else l) \<and>
            persist cfg = (s \<noteq> []) \<and> restore cfg = (l \<noteq> [])"
    by simp
  moreover have "\<forall>cfg. resolve args = Inr cfg \<longrightarrow>
            imagePath cfg = (if s \<noteq> [] then s else l) \<and>
            persist cfg = (s \<noteq> []) \<and> restore cfg = (l \<noteq> [])"
    using g by (auto simp: resolve_def andThen_Inr_iff checkExeModes_typed [OF v(3,4)] split: if_splits)
  ultimately show ?thesis by blast
qed

theorem imagePath_persist_restore_witness:
  "well_typed (sample_args False False ''img'' []) \<and>
   (\<exists>cfg. resolve (sample_args False False ''img'' []) = Inr cfg \<and>
      imagePath cfg = ''img'' \<and> persist cfg = True \<and> restore cfg = False)"
proof -
  have w: "well_typed (sample_args False False ''img'' [])"
    by (simp add: well_typed_def sample_args_def)
  have r: "\<exists>cfg. resolve (sample_args False False ''img'' []) = Inr cfg"
    by (simp add: resolve_def checkExeModes_def getRuntimeConfig_def at_def as_string_def
        as_bool_def as_size_t_def sample_args_def)
  from imagePath_persist_restore [OF w, of "''img''" "[]"] r w
  show ?thesis by (auto simp: sample_args_def)
qed


end
